theory Spec2Isabelle
  imports Main "HOL-Library.Char_ord"
begin

section \<open>Errors\<close>

text \<open>
  The exceptions the code can raise, as values.  \<open>ScheduleError\<close>, \<open>LexerError\<close> and
  \<open>ParserError\<close> are the three error classes of \<open>athame.exceptions\<close>, each carrying its
  message; \<open>ValueError\<close> is Python's (raised by the date-time library on a field out of range
  and by unpacking an empty sequence); \<open>ValidationError\<close> is raised by a pydantic model whose
  field violates its \<open>conint\<close> bounds; \<open>TypeError\<close> is Python's.
\<close>

datatype error =
    ScheduleError string
  | LexerError string
  | ParserError string
  | ValueError
  | ValidationError
  | TypeError

section \<open>The weekly time-window model (ast.py)\<close>

subsection \<open>Time, Interval, Directive, Agenda, WeekdayInterval\<close>

record Time =
  hour :: int
  minute :: int

text \<open>The bounds \<open>conint(ge=0, le=23)\<close> and \<open>conint(ge=0, le=59)\<close> of the two fields.\<close>

definition Time_valid :: "Time \<Rightarrow> bool" where
  "Time_valid t \<longleftrightarrow> 0 \<le> hour t \<and> hour t \<le> 23 \<and> 0 \<le> minute t \<and> minute t \<le> 59"

definition mk_Time :: "int \<Rightarrow> int \<Rightarrow> error + Time" where
  "mk_Time h m =
     (if 0 \<le> h \<and> h \<le> 23 \<and> 0 \<le> m \<and> m \<le> 59 then Inr \<lparr>hour = h, minute = m\<rparr>
      else Inl ValidationError)"

definition start_of_day :: Time where
  "start_of_day = \<lparr>hour = 0, minute = 0\<rparr>"

definition end_of_day :: Time where
  "end_of_day = \<lparr>hour = 23, minute = 59\<rparr>"

record Interval =
  start :: Time
  finish :: Time

text \<open>Field \<open>finish\<close> is the source's \<open>end\<close>, which is a reserved word here.\<close>

datatype Directive = ALLOW | FORBID

record Agenda =
  intervals :: "Interval list"
  directive :: Directive

record WeekdayInterval =
  day_of_week :: int
  interval :: Interval

definition WeekdayInterval_valid :: "WeekdayInterval \<Rightarrow> bool" where
  "WeekdayInterval_valid w \<longleftrightarrow>
     0 \<le> day_of_week w \<and> day_of_week w \<le> 6 \<and>
     Time_valid (start (interval w)) \<and> Time_valid (finish (interval w))"

text \<open>
  The constructor call \<open>WeekdayInterval(day_of_week=d, interval=i)\<close>: pydantic checks
  \<open>conint(ge=0, le=6)\<close> and raises otherwise.
\<close>

definition mk_WeekdayInterval :: "int \<Rightarrow> Interval \<Rightarrow> error + WeekdayInterval" where
  "mk_WeekdayInterval d i =
     (if 0 \<le> d \<and> d \<le> 6 then Inr \<lparr>day_of_week = d, interval = i\<rparr> else Inl ValidationError)"

subsection \<open>The date-time values of the calendar library\<close>

text \<open>
  A \<open>pendulum.DateTime\<close> expressed in some time zone, as the code uses it: a local calendar
  day counted from a reference Sunday (day 0 is a Sunday, day 7 the Sunday after), and the
  local time of day.  Zones are taken without daylight-saving jumps, so that local days have
  24 hours.  \<open>dt_day_of_week\<close> is pendulum's \<open>day_of_week\<close> (0 = Sunday .. 6 = Saturday).
\<close>

record DateTime =
  dt_day :: int
  dt_hour :: int
  dt_minute :: int
  dt_second :: int
  dt_microsecond :: int

definition DateTime_valid :: "DateTime \<Rightarrow> bool" where
  "DateTime_valid dt \<longleftrightarrow>
     0 \<le> dt_hour dt \<and> dt_hour dt \<le> 23 \<and> 0 \<le> dt_minute dt \<and> dt_minute dt \<le> 59 \<and>
     0 \<le> dt_second dt \<and> dt_second dt \<le> 59 \<and>
     0 \<le> dt_microsecond dt \<and> dt_microsecond dt \<le> 999999"

definition dt_day_of_week :: "DateTime \<Rightarrow> int" where
  "dt_day_of_week dt = dt_day dt mod 7"

text \<open>The position of a date-time on the time line, in microseconds; comparisons use it.\<close>

definition instant :: "DateTime \<Rightarrow> int" where
  "instant dt =
     (((dt_day dt * 24 + dt_hour dt) * 60 + dt_minute dt) * 60 + dt_second dt) * 1000000
       + dt_microsecond dt"

text \<open>\<open>dt.at(hour, minute)\<close>: same day, the given hour and minute, seconds and microseconds 0.\<close>

definition DateTime_at :: "DateTime \<Rightarrow> int \<Rightarrow> int \<Rightarrow> error + DateTime" where
  "DateTime_at dt h m =
     (if 0 \<le> h \<and> h \<le> 23 \<and> 0 \<le> m \<and> m \<le> 59
      then Inr (dt\<lparr>dt_hour := h, dt_minute := m, dt_second := 0, dt_microsecond := 0\<rparr>)
      else Inl ValueError)"

definition add_days :: "DateTime \<Rightarrow> int \<Rightarrow> DateTime" where
  "add_days dt n = dt\<lparr>dt_day := dt_day dt + n\<rparr>"

definition add_minutes :: "DateTime \<Rightarrow> int \<Rightarrow> DateTime" where
  "add_minutes dt n =
     (let t = dt_hour dt * 60 + dt_minute dt + n
      in dt\<lparr>dt_day := dt_day dt + t div 1440, dt_hour := (t mod 1440) div 60,
             dt_minute := t mod 60\<rparr>)"

definition start_of_day_dt :: "DateTime \<Rightarrow> DateTime" where
  "start_of_day_dt dt = dt\<lparr>dt_hour := 0, dt_minute := 0, dt_second := 0, dt_microsecond := 0\<rparr>"

text \<open>
  \<open>dt.next(day_of_week, keep_time)\<close>: the library rejects a day outside 0..6, then steps one
  day forward and keeps stepping until the weekday matches, so it never returns the day it
  started from.  \<open>next_loop\<close> is that stepping loop; it is entered only with a day in 0..6.
\<close>

function next_loop :: "int \<Rightarrow> DateTime \<Rightarrow> DateTime" where
  "next_loop d dt =
     (if 0 \<le> d \<and> d \<le> 6 \<and> dt_day_of_week dt \<noteq> d then next_loop d (add_days dt 1) else dt)"
  by pat_completeness auto
termination
proof (relation "measure (\<lambda>(d, dt). nat ((d - dt_day dt) mod 7))")
  show "wf (measure (\<lambda>(d, dt). nat ((d - dt_day dt) mod 7)))" by simp
next
  fix d :: int and dt :: DateTime
  assume a: "0 \<le> d \<and> d \<le> 6 \<and> dt_day_of_week dt \<noteq> d"
  define x where "x = dt_day dt"
  from a have "x mod 7 \<noteq> d" "0 \<le> d" "d \<le> 6" by (simp_all add: dt_day_of_week_def x_def)
  then have "(d - (x + 1)) mod 7 < (d - x) mod 7" by presburger
  then show "((d, add_days dt 1), (d, dt)) \<in> measure (\<lambda>(d, dt). nat ((d - dt_day dt) mod 7))"
    by (simp add: add_days_def x_def)
qed

declare next_loop.simps [simp del]

definition DateTime_next :: "DateTime \<Rightarrow> int \<Rightarrow> bool \<Rightarrow> error + DateTime" where
  "DateTime_next dt d keep_time =
     (if d < 0 \<or> 6 < d then Inl ValueError
      else Inr (next_loop d (add_days (if keep_time then dt else start_of_day_dt dt) 1)))"

subsection \<open>WeekdayInterval operations\<close>

text \<open>\<open>WeekdayInterval.__contains__\<close>, with Python's chained comparisons written out.\<close>

definition contains :: "WeekdayInterval \<Rightarrow> DateTime \<Rightarrow> bool" where
  "contains w dt \<longleftrightarrow>
     day_of_week w = dt_day_of_week dt \<and>
     ((hour (start (interval w)) < dt_hour dt \<and> dt_hour dt < hour (finish (interval w)))
      \<or> ((hour (start (interval w)) = dt_hour dt \<and> dt_hour dt \<noteq> hour (finish (interval w)))
          \<and> minute (start (interval w)) \<le> dt_minute dt)
      \<or> ((hour (start (interval w)) \<noteq> dt_hour dt \<and> dt_hour dt = hour (finish (interval w)))
          \<and> minute (finish (interval w)) \<ge> dt_minute dt)
      \<or> ((hour (start (interval w)) = hour (finish (interval w))
            \<and> hour (finish (interval w)) = dt_hour dt)
          \<and> (minute (start (interval w)) \<le> dt_minute dt
               \<and> dt_minute dt \<le> minute (finish (interval w)))))"

definition next_start_after :: "WeekdayInterval \<Rightarrow> DateTime \<Rightarrow> error + DateTime" where
  "next_start_after w moment =
     (if dt_day_of_week moment = day_of_week w then
        (case DateTime_at moment (hour (start (interval w))) (minute (start (interval w))) of
           Inl e \<Rightarrow> Inl e
         | Inr time_shifted_moment \<Rightarrow>
             if instant time_shifted_moment \<ge> instant moment then Inr time_shifted_moment
             else DateTime_next time_shifted_moment (day_of_week w) True)
      else
        (case DateTime_next moment (day_of_week w) False of
           Inl e \<Rightarrow> Inl e
         | Inr n \<Rightarrow> DateTime_at n (hour (start (interval w))) (minute (start (interval w)))))"

definition next_end_after :: "WeekdayInterval \<Rightarrow> DateTime \<Rightarrow> error + DateTime" where
  "next_end_after w moment =
     (if dt_day_of_week moment = day_of_week w then
        (case DateTime_at moment (hour (finish (interval w))) (minute (finish (interval w))) of
           Inl e \<Rightarrow> Inl e
         | Inr a \<Rightarrow>
             (let time_shifted_moment = add_minutes a 1
              in if instant time_shifted_moment > instant moment then Inr time_shifted_moment
                 else DateTime_next time_shifted_moment (day_of_week w) True))
      else
        (case DateTime_next moment (day_of_week w) False of
           Inl e \<Rightarrow> Inl e
         | Inr n \<Rightarrow>
             (case DateTime_at n (hour (finish (interval w))) (minute (finish (interval w))) of
                Inl e \<Rightarrow> Inl e
              | Inr a \<Rightarrow> Inr (add_minutes a 1))))"

subsection \<open>Schedule\<close>

record Schedule =
  allowed :: "WeekdayInterval list"
  forbidden :: "WeekdayInterval list"
  tz :: string

text \<open>A list comprehension whose element expression may raise: the first error ends it.\<close>

fun collect :: "('a \<Rightarrow> error + 'b) \<Rightarrow> 'a list \<Rightarrow> error + 'b list" where
  "collect f [] = Inr []"
| "collect f (x # xs) =
     (case f x of
        Inl e \<Rightarrow> Inl e
      | Inr y \<Rightarrow> (case collect f xs of Inl e \<Rightarrow> Inl e | Inr ys \<Rightarrow> Inr (y # ys)))"

text \<open>
  \<open>Schedule.add_agenda_on_days\<close>.  \<open>itertools.product(agenda.intervals, days)\<close> runs over
  the intervals in the outer loop and the days in the inner one, as \<open>List.product\<close> does.
  The final \<open>else: raise ValueError\<close> of the source has no case here: \<open>Directive\<close> has
  two members only.
\<close>

definition add_agenda_on_days :: "Schedule \<Rightarrow> Agenda \<Rightarrow> int list \<Rightarrow> error + Schedule" where
  "add_agenda_on_days s agenda days =
     (case collect (\<lambda>(i, d). mk_WeekdayInterval d i) (List.product (intervals agenda) days) of
        Inl e \<Rightarrow> Inl e
      | Inr weekday_intervals \<Rightarrow>
          (case directive agenda of
             ALLOW \<Rightarrow> Inr (s\<lparr>allowed := allowed s @ weekday_intervals\<rparr>)
           | FORBID \<Rightarrow> Inr (s\<lparr>forbidden := forbidden s @ weekday_intervals\<rparr>)))"

fun add_agendas_on_days :: "Schedule \<Rightarrow> Agenda list \<Rightarrow> int list \<Rightarrow> error + Schedule" where
  "add_agendas_on_days s [] days = Inr s"
| "add_agendas_on_days s (agenda # agendas) days =
     (case add_agenda_on_days s agenda days of
        Inl e \<Rightarrow> Inl e
      | Inr s' \<Rightarrow> add_agendas_on_days s' agendas days)"

text \<open>
  \<open>Schedule.is_allowed_at\<close>.  The conversion \<open>moment.in_tz(self.tz)\<close> belongs to the calendar
  library and its zone database; it is the parameter \<open>in_tz\<close> of the model.
\<close>

definition is_allowed_at :: "(string \<Rightarrow> DateTime \<Rightarrow> DateTime) \<Rightarrow> Schedule \<Rightarrow> DateTime \<Rightarrow> bool" where
  "is_allowed_at in_tz s moment =
     (let moment = in_tz (tz s) moment
      in list_ex (\<lambda>weekday_interval. contains weekday_interval moment) (allowed s)
         \<and> \<not> list_ex (\<lambda>weekday_interval. contains weekday_interval moment) (forbidden s))"

text \<open>
  Modelled from the spec: \<open>ScheduleError.handle_errors\<close> of \<open>athame.exceptions\<close>, the context
  manager around the unpacking in \<open>next_moment_allowed_after\<close>.  An exception of the given
  class (\<open>ValueError\<close>) raised inside it becomes a schedule error with the given message; any
  other result passes through.
\<close>

definition handle_errors :: "string \<Rightarrow> error + 'a \<Rightarrow> error + 'a" where
  "handle_errors message r = (case r of Inl ValueError \<Rightarrow> Inl (ScheduleError message) | _ \<Rightarrow> r)"

text \<open>\<open>best, *_ = xs\<close>: the first element; an empty sequence raises \<open>ValueError\<close>.\<close>

definition unpack_first :: "'a list \<Rightarrow> error + 'a" where
  "unpack_first xs = (case xs of [] \<Rightarrow> Inl ValueError | best # _ \<Rightarrow> Inr best)"

definition next_moment_allowed_after ::
    "(string \<Rightarrow> DateTime \<Rightarrow> DateTime) \<Rightarrow> Schedule \<Rightarrow> DateTime \<Rightarrow> error + DateTime" where
  "next_moment_allowed_after in_tz s moment =
     (let moment = in_tz (tz s) moment
      in case collect (\<lambda>wdi. next_start_after wdi moment) (allowed s) of
           Inl e \<Rightarrow> Inl e
         | Inr allowed_starts \<Rightarrow>
             (case collect (\<lambda>wdi. next_end_after wdi moment) (forbidden s) of
                Inl e \<Rightarrow> Inl e
              | Inr forbidden_ends \<Rightarrow>
                  (let candidates = [moment] @ allowed_starts @ forbidden_ends;
                       allowed_only = filter (is_allowed_at in_tz s) candidates
                   in handle_errors ''no allowed intervals in the schedule''
                        (unpack_first (sort_key instant allowed_only)))))"

text \<open>Notation for the examples: day \<open>d\<close> at \<open>h:m\<close>, seconds and microseconds 0.\<close>

definition moment_at :: "int \<Rightarrow> int \<Rightarrow> int \<Rightarrow> DateTime" where
  "moment_at d h m =
     \<lparr>dt_day = d, dt_hour = h, dt_minute = m, dt_second = 0, dt_microsecond = 0\<rparr>"

definition weekday_interval :: "int \<Rightarrow> int \<Rightarrow> int \<Rightarrow> int \<Rightarrow> int \<Rightarrow> WeekdayInterval" where
  "weekday_interval d sh sm eh em =
     \<lparr>day_of_week = d,
      interval = \<lparr>start = \<lparr>hour = sh, minute = sm\<rparr>, finish = \<lparr>hour = eh, minute = em\<rparr>\<rparr>\<rparr>"

section \<open>Properties of the weekly time-window model\<close>

lemma contains_branches_eq:
  fixes sh eh h sm em m :: int
  shows "((sh < h \<and> h < eh)
          \<or> ((sh = h \<and> h \<noteq> eh) \<and> sm \<le> m)
          \<or> ((sh \<noteq> h \<and> h = eh) \<and> em \<ge> m)
          \<or> ((sh = eh \<and> eh = h) \<and> (sm \<le> m \<and> m \<le> em)))
         \<longleftrightarrow>
         (sh < h \<and> h < eh
          \<or> h = sh \<and> h \<noteq> eh \<and> sm \<le> m
          \<or> h = eh \<and> h \<noteq> sh \<and> m \<le> em
          \<or> sh = h \<and> eh = h \<and> sm \<le> m \<and> m \<le> em)"
  by blast

text \<open>
  Claim C3.  A weekday interval contains a date-time exactly when the days of the week agree
  and one of the four boundary branches holds: the hour lies strictly between the start and
  end hours; or it is the start hour, not the end hour, and the minute is at or after the
  start minute; or it is the end hour, not the start hour, and the minute is at or before the
  end minute; or start hour, end hour and hour coincide and the minute lies between the two
  minutes inclusive.  The interval 02:15-14:45 on day 0 contains day 0 at 02:15, 14:45 and
  08:30, and excludes day 0 at 00:00, 02:14, 14:46 and day 1 at 08:30.
\<close>

theorem contains_boundary_branches:
  "(contains w dt \<longleftrightarrow>
      dt_day_of_week dt = day_of_week w \<and>
      (hour (start (interval w)) < dt_hour dt \<and> dt_hour dt < hour (finish (interval w))
       \<or> dt_hour dt = hour (start (interval w)) \<and> dt_hour dt \<noteq> hour (finish (interval w))
           \<and> minute (start (interval w)) \<le> dt_minute dt
       \<or> dt_hour dt = hour (finish (interval w)) \<and> dt_hour dt \<noteq> hour (start (interval w))
           \<and> dt_minute dt \<le> minute (finish (interval w))
       \<or> hour (start (interval w)) = dt_hour dt \<and> hour (finish (interval w)) = dt_hour dt
           \<and> minute (start (interval w)) \<le> dt_minute dt
           \<and> dt_minute dt \<le> minute (finish (interval w))))
   \<and> contains (weekday_interval 0 2 15 14 45) (moment_at 0 2 15)
   \<and> contains (weekday_interval 0 2 15 14 45) (moment_at 0 14 45)
   \<and> contains (weekday_interval 0 2 15 14 45) (moment_at 0 8 30)
   \<and> \<not> contains (weekday_interval 0 2 15 14 45) (moment_at 0 0 0)
   \<and> \<not> contains (weekday_interval 0 2 15 14 45) (moment_at 0 2 14)
   \<and> \<not> contains (weekday_interval 0 2 15 14 45) (moment_at 0 14 46)
   \<and> \<not> contains (weekday_interval 0 2 15 14 45) (moment_at 1 8 30)"
proof -
  have general: "contains w dt \<longleftrightarrow>
      dt_day_of_week dt = day_of_week w \<and>
      (hour (start (interval w)) < dt_hour dt \<and> dt_hour dt < hour (finish (interval w))
       \<or> dt_hour dt = hour (start (interval w)) \<and> dt_hour dt \<noteq> hour (finish (interval w))
           \<and> minute (start (interval w)) \<le> dt_minute dt
       \<or> dt_hour dt = hour (finish (interval w)) \<and> dt_hour dt \<noteq> hour (start (interval w))
           \<and> dt_minute dt \<le> minute (finish (interval w))
       \<or> hour (start (interval w)) = dt_hour dt \<and> hour (finish (interval w)) = dt_hour dt
           \<and> minute (start (interval w)) \<le> dt_minute dt
           \<and> dt_minute dt \<le> minute (finish (interval w)))"
    unfolding contains_def contains_branches_eq
    by (rule iffI; (elim conjE, intro conjI); (simp; fail)?)
  have examples:
    "contains (weekday_interval 0 2 15 14 45) (moment_at 0 2 15)"
    "contains (weekday_interval 0 2 15 14 45) (moment_at 0 14 45)"
    "contains (weekday_interval 0 2 15 14 45) (moment_at 0 8 30)"
    "\<not> contains (weekday_interval 0 2 15 14 45) (moment_at 0 0 0)"
    "\<not> contains (weekday_interval 0 2 15 14 45) (moment_at 0 2 14)"
    "\<not> contains (weekday_interval 0 2 15 14 45) (moment_at 0 14 46)"
    "\<not> contains (weekday_interval 0 2 15 14 45) (moment_at 1 8 30)"
    by (simp_all add: contains_def weekday_interval_def moment_at_def dt_day_of_week_def)
  show ?thesis
    by (intro conjI, rule general) (rule examples)+
qed

theorem contains_boundary_branches_witness:
  "contains (weekday_interval 0 12 15 12 45) (moment_at 7 12 30)
   \<and> \<not> contains (weekday_interval 0 12 15 12 45) (moment_at 7 13 0)"
  using contains_boundary_branches [of "weekday_interval 0 12 15 12 45" "moment_at 7 12 30"]
        contains_boundary_branches [of "weekday_interval 0 12 15 12 45" "moment_at 7 13 0"]
  by (simp add: weekday_interval_def moment_at_def dt_day_of_week_def)

end
